theory Spec2Isabelle
  imports Main "HOL-Library.Word" "HOL-Library.Sublist"
begin

unbundle bit_operations_syntax

section \<open>Index types\<close>

text \<open>
  Modelled from the spec: the index types \<^verbatim>\<open>NTupleSize_t\<close>, \<^verbatim>\<open>DescriptorId_t\<close> and
  \<^verbatim>\<open>ClusterSize_t\<close> of \<^verbatim>\<open>ROOT/RNTupleUtil.hxx\<close>, which \<^verbatim>\<open>RNTupleView.hxx\<close> includes and
  which is not among the sources. The spec describes them as unsigned integral types
  with one reserved sentinel value each. They are 64-bit words here, with the all-ones
  value as the sentinel; \<^verbatim>\<open>ClusterSize_t\<close> converts to and from its
  \<^verbatim>\<open>ClusterSize_t::ValueType\<close> implicitly and is the same type in this model. Arithmetic on
  words wraps around as unsigned arithmetic does. No proof below depends on the width:
  the lemmas about stepping an index are stated for every word length.
\<close>

type_synonym NTupleSize_t = "64 word"
type_synonym DescriptorId_t = "64 word"
type_synonym ClusterSize_t = "64 word"

definition kInvalidNTupleIndex :: NTupleSize_t where
  "kInvalidNTupleIndex = - 1"

definition kInvalidDescriptorId :: DescriptorId_t where
  "kInvalidDescriptorId = - 1"

section \<open>RNTupleGlobalRange\<close>

text \<open>The nested class \<^verbatim>\<open>RNTupleGlobalRange::RIterator\<close>; its only member is the index.\<close>

record GlobalRIterator =
  fIndex_g :: NTupleSize_t

text \<open>\<^verbatim>\<open>RIterator() = default\<close>: the member initialiser is \<^verbatim>\<open>kInvalidNTupleIndex\<close>.\<close>

definition GlobalRIterator_default :: GlobalRIterator where
  "GlobalRIterator_default = \<lparr>fIndex_g = kInvalidNTupleIndex\<rparr>"

text \<open>\<^verbatim>\<open>explicit RIterator(NTupleSize_t index) : fIndex(index) {}\<close>\<close>

definition GlobalRIterator_ctor :: "NTupleSize_t \<Rightarrow> GlobalRIterator" where
  "GlobalRIterator_ctor index = \<lparr>fIndex_g = index\<rparr>"

text \<open>
  \<^verbatim>\<open>operator++(int)\<close> copies the iterator, increments the index and returns the copy: the
  model returns the copy together with the iterator after the call.
\<close>

definition postinc_g :: "GlobalRIterator \<Rightarrow> GlobalRIterator \<times> GlobalRIterator" where
  "postinc_g it = (let r = it in (r, it\<lparr>fIndex_g := fIndex_g it + 1\<rparr>))"

text \<open>\<^verbatim>\<open>operator++()\<close> increments the index and returns the iterator itself.\<close>

definition preinc_g :: "GlobalRIterator \<Rightarrow> GlobalRIterator" where
  "preinc_g it = it\<lparr>fIndex_g := fIndex_g it + 1\<rparr>"

definition deref_g :: "GlobalRIterator \<Rightarrow> NTupleSize_t" where
  "deref_g it = fIndex_g it"

definition eq_g :: "GlobalRIterator \<Rightarrow> GlobalRIterator \<Rightarrow> bool" where
  "eq_g it rh \<longleftrightarrow> fIndex_g it = fIndex_g rh"

definition neq_g :: "GlobalRIterator \<Rightarrow> GlobalRIterator \<Rightarrow> bool" where
  "neq_g it rh \<longleftrightarrow> fIndex_g it \<noteq> fIndex_g rh"

record RNTupleGlobalRange =
  fStart_g :: NTupleSize_t
  fEnd_g :: NTupleSize_t

text \<open>
  The constructor takes the two bounds and nothing else: no page source is in scope.
\<close>

definition RNTupleGlobalRange_ctor :: "NTupleSize_t \<Rightarrow> NTupleSize_t \<Rightarrow> RNTupleGlobalRange" where
  "RNTupleGlobalRange_ctor start end' = \<lparr>fStart_g = start, fEnd_g = end'\<rparr>"

definition begin_g :: "RNTupleGlobalRange \<Rightarrow> GlobalRIterator" where
  "begin_g r = GlobalRIterator_ctor (fStart_g r)"

definition end_g :: "RNTupleGlobalRange \<Rightarrow> GlobalRIterator" where
  "end_g r = GlobalRIterator_ctor (fEnd_g r)"

text \<open>
  The range-based loop a caller writes over the range,
  \<^verbatim>\<open>for (auto it = r.begin(); it != r.end(); ++it) use(*it);\<close>
  collected as the list of the values it visits. The distance to the end iterator,
  taken modulo the word size, decreases with every step, so the loop ends for every pair
  of iterators.
\<close>

lemma unat_diff_step:
  fixes s e :: "'a::len word"
  assumes "e \<noteq> s"
  shows "unat (e - (s + 1)) = unat (e - s) - 1"
proof -
  have "e - s \<noteq> 0"
    using assms by simp
  then have "unat ((e - s) - 1) = unat (e - s) - 1"
    by (rule unat_minus_one)
  moreover have "e - (s + 1) = (e - s) - 1"
    by simp
  ultimately show ?thesis
    by (simp only:)
qed

lemma unat_diff_step_less:
  fixes s e :: "'a::len word"
  assumes "e \<noteq> s"
  shows "unat (e - (s + 1)) < unat (e - s)"
proof -
  have "unat (e - s) \<noteq> 0"
    using assms by (simp add: unat_eq_0)
  then show ?thesis
    using unat_diff_step [OF assms] by simp
qed

function loop_g :: "GlobalRIterator \<Rightarrow> GlobalRIterator \<Rightarrow> NTupleSize_t list" where
  "loop_g it e = (if neq_g it e then deref_g it # loop_g (preinc_g it) e else [])"
  by pat_completeness auto
termination
proof (relation "measure (\<lambda>(it, e). unat (fIndex_g e - fIndex_g it))")
  show "wf (measure (\<lambda>(it, e). unat (fIndex_g e - fIndex_g it)))"
    by simp
next
  fix it e :: GlobalRIterator
  assume "neq_g it e"
  then have "fIndex_g e \<noteq> fIndex_g it"
    by (auto simp: neq_g_def)
  then have "unat (fIndex_g e - (fIndex_g it + 1)) < unat (fIndex_g e - fIndex_g it)"
    by (rule unat_diff_step_less)
  then show "((preinc_g it, e), (it, e)) \<in> measure (\<lambda>(it, e). unat (fIndex_g e - fIndex_g it))"
    by (simp add: preinc_g_def)
qed

definition iterate_g :: "RNTupleGlobalRange \<Rightarrow> NTupleSize_t list" where
  "iterate_g r = loop_g (begin_g r) (end_g r)"

section \<open>RClusterIndex\<close>

text \<open>
  Modelled from the spec: the class \<^verbatim>\<open>RClusterIndex\<close> of \<^verbatim>\<open>ROOT/RNTupleUtil.hxx\<close>,
  which is not among the sources. The spec describes it as the pair of a cluster
  identifier and an offset local to that cluster; advancing it increments the offset by
  one step and never crosses a cluster boundary, and two indices are equal when they are
  the same pair.
\<close>

record RClusterIndex =
  fClusterId :: DescriptorId_t
  fIndex :: ClusterSize_t

definition RClusterIndex_ctor :: "DescriptorId_t \<Rightarrow> ClusterSize_t \<Rightarrow> RClusterIndex" where
  "RClusterIndex_ctor clusterId index = \<lparr>fClusterId = clusterId, fIndex = index\<rparr>"

definition GetClusterId :: "RClusterIndex \<Rightarrow> DescriptorId_t" where
  "GetClusterId i = fClusterId i"

definition GetIndex :: "RClusterIndex \<Rightarrow> ClusterSize_t" where
  "GetIndex i = fIndex i"

definition postinc_ci :: "RClusterIndex \<Rightarrow> RClusterIndex \<times> RClusterIndex" where
  "postinc_ci i = (let r = i in (r, i\<lparr>fIndex := fIndex i + 1\<rparr>))"

definition eq_ci :: "RClusterIndex \<Rightarrow> RClusterIndex \<Rightarrow> bool" where
  "eq_ci i other \<longleftrightarrow> fClusterId i = fClusterId other \<and> fIndex i = fIndex other"

definition neq_ci :: "RClusterIndex \<Rightarrow> RClusterIndex \<Rightarrow> bool" where
  "neq_ci i other \<longleftrightarrow> \<not> eq_ci i other"

section \<open>RNTupleClusterRange\<close>

record ClusterRIterator =
  fIndex_c :: RClusterIndex

definition ClusterRIterator_ctor :: "RClusterIndex \<Rightarrow> ClusterRIterator" where
  "ClusterRIterator_ctor index = \<lparr>fIndex_c = index\<rparr>"

definition postinc_c :: "ClusterRIterator \<Rightarrow> ClusterRIterator \<times> ClusterRIterator" where
  "postinc_c it = (let r = it in (r, it\<lparr>fIndex_c := snd (postinc_ci (fIndex_c it))\<rparr>))"

text \<open>The prefix form also advances the index with \<^verbatim>\<open>fIndex++\<close>.\<close>

definition preinc_c :: "ClusterRIterator \<Rightarrow> ClusterRIterator" where
  "preinc_c it = it\<lparr>fIndex_c := snd (postinc_ci (fIndex_c it))\<rparr>"

definition deref_c :: "ClusterRIterator \<Rightarrow> RClusterIndex" where
  "deref_c it = fIndex_c it"

definition eq_c :: "ClusterRIterator \<Rightarrow> ClusterRIterator \<Rightarrow> bool" where
  "eq_c it rh \<longleftrightarrow> eq_ci (fIndex_c it) (fIndex_c rh)"

definition neq_c :: "ClusterRIterator \<Rightarrow> ClusterRIterator \<Rightarrow> bool" where
  "neq_c it rh \<longleftrightarrow> neq_ci (fIndex_c it) (fIndex_c rh)"

record RNTupleClusterRange =
  fClusterId_c :: DescriptorId_t
  fStart_c :: ClusterSize_t
  fEnd_c :: ClusterSize_t

definition RNTupleClusterRange_ctor ::
  "DescriptorId_t \<Rightarrow> ClusterSize_t \<Rightarrow> ClusterSize_t \<Rightarrow> RNTupleClusterRange" where
  "RNTupleClusterRange_ctor clusterId start end' =
     \<lparr>fClusterId_c = clusterId, fStart_c = start, fEnd_c = end'\<rparr>"

definition begin_c :: "RNTupleClusterRange \<Rightarrow> ClusterRIterator" where
  "begin_c r = ClusterRIterator_ctor (RClusterIndex_ctor (fClusterId_c r) (fStart_c r))"

definition end_c :: "RNTupleClusterRange \<Rightarrow> ClusterRIterator" where
  "end_c r = ClusterRIterator_ctor (RClusterIndex_ctor (fClusterId_c r) (fEnd_c r))"

text \<open>
  The same caller's loop over cluster iterators. Two iterators of different clusters
  never compare equal, whatever the number of steps, so for arbitrary iterators the
  loop need not end: the result is an option, and \<open>None\<close> stands for a loop that runs
  forever.
\<close>

partial_function (option) loop_c ::
  "ClusterRIterator \<Rightarrow> ClusterRIterator \<Rightarrow> RClusterIndex list option" where
  "loop_c it e =
     (if neq_c it e
      then Option.bind (loop_c (preinc_c it) e) (\<lambda>rest. Some (deref_c it # rest))
      else Some [])"

definition iterate_c :: "RNTupleClusterRange \<Rightarrow> RClusterIndex list option" where
  "iterate_c r = loop_c (begin_c r) (end_c r)"

section \<open>Failures\<close>

text \<open>
  Modelled from the spec: the failures of the collaborators, which this header lets pass
  to its caller. \<open>OutOfRange\<close> is the failure the spec gives to an index outside the bounds
  of a field; it is raised inside \<^verbatim>\<open>ROOT/RField.hxx\<close>, which is not among the sources.
  \<open>InvalidFieldId\<close> stands for the outcome of looking up, in the descriptor, a field
  identifier that is not there; the spec takes the identifier as already resolved.

  Every failure this header raises itself is \<^verbatim>\<open>throw RException(R__FAIL(msg))\<close>, and the
  message is what tells one from the other: \<open>RException msg\<close>.
\<close>

datatype RError = RException string | OutOfRange | InvalidFieldId

section \<open>Fields\<close>

text \<open>
  Modelled from the spec: the field classes \<^verbatim>\<open>RFieldBase\<close> and \<^verbatim>\<open>RField<T>\<close> of
  \<^verbatim>\<open>ROOT/RField.hxx\<close>, which is not among the sources. Of a field object the spec says
  that it reports its element count, whether its kind supports zero-copy mapping and
  whether it has a registered post-decode callback, that it reads one element by index
  into a caller-supplied holder, and that it gives mapped access when its kind allows it.

  \<open>'v FieldT\<close> is the template argument \<^verbatim>\<open>T\<close> as far as \<^verbatim>\<open>RField<T>\<close> depends on it:
  whether the class declares \<^verbatim>\<open>Map(NTupleSize_t)\<close> (what \<^verbatim>\<open>Internal::isMappable\<close> detects
  at compile time), the traits mask and the number of read callbacks a field of this
  class carries, and the default-constructed object of \<^verbatim>\<open>CreateValue()\<close>.
\<close>

record 'v FieldT =
  tHasMap :: bool
  tTraits :: int
  tReadCallbacks :: nat
  tDefault :: 'v

record 'v RField =
  fName :: string
  fOnDiskId :: DescriptorId_t
  fHasMap :: bool
  fTraits :: int
  fReadCallbacks :: nat
  fDefault :: 'v
  fPrincipalColumn :: "'v list"

text \<open>
  Modelled from the spec: the bit \<^verbatim>\<open>RFieldBase::kTraitMappable\<close> of the traits mask
  (\<^verbatim>\<open>0x04\<close> in \<^verbatim>\<open>ROOT/RField.hxx\<close>), which reports a zero-copy-mappable field.
\<close>

definition kTraitMappable :: int where
  "kTraitMappable = 4"

text \<open>
  Modelled from the spec: the constructor \<^verbatim>\<open>RField<T>(name)\<close> and the member functions
  \<^verbatim>\<open>CreateValue\<close>, \<^verbatim>\<open>SetOnDiskId\<close>, \<^verbatim>\<open>GetTraits\<close>, \<^verbatim>\<open>HasReadCallbacks\<close> and \<^verbatim>\<open>GetNElements\<close>
  of \<^verbatim>\<open>ROOT/RField.hxx\<close>. The constructor gives a fresh field without parent, not yet
  connected (no elements to serve) and with the invalid on-disk id.
\<close>

definition RField_ctor :: "'v FieldT \<Rightarrow> string \<Rightarrow> 'v RField" where
  "RField_ctor T name =
     \<lparr>fName = name, fOnDiskId = kInvalidDescriptorId, fHasMap = tHasMap T,
      fTraits = tTraits T, fReadCallbacks = tReadCallbacks T, fDefault = tDefault T,
      fPrincipalColumn = []\<rparr>"

definition CreateValue :: "'v RField \<Rightarrow> 'v" where
  "CreateValue f = fDefault f"

definition SetOnDiskId :: "'v RField \<Rightarrow> DescriptorId_t \<Rightarrow> 'v RField" where
  "SetOnDiskId f fieldId = f\<lparr>fOnDiskId := fieldId\<rparr>"

definition GetTraits :: "'v RField \<Rightarrow> int" where
  "GetTraits f = fTraits f"

definition HasReadCallbacks :: "'v RField \<Rightarrow> bool" where
  "HasReadCallbacks f \<longleftrightarrow> fReadCallbacks f \<noteq> 0"

definition GetNElements :: "'v RField \<Rightarrow> NTupleSize_t" where
  "GetNElements f = of_nat (length (fPrincipalColumn f))"

text \<open>
  Modelled from the spec: \<^verbatim>\<open>RField<T>::Map(NTupleSize_t)\<close>. It hands out the address of
  the element inside the decoded page, here the position in the column; an index outside
  the field's bounds is the failure \<open>OutOfRange\<close>.
\<close>

definition Map_f :: "'v RField \<Rightarrow> NTupleSize_t \<Rightarrow> RError + NTupleSize_t" where
  "Map_f f globalIndex =
     (if unat globalIndex < length (fPrincipalColumn f) then Inr globalIndex else Inl OutOfRange)"

text \<open>
  Modelled from the spec: \<^verbatim>\<open>RFieldBase::RValue::Read(NTupleSize_t)\<close>. It decodes the
  element at the index into the object the value holds, overwriting it; the result is
  the new content of the holder. An index outside the field's bounds is the failure
  \<open>OutOfRange\<close>, and the holder is only overwritten by a read that succeeds.
\<close>

definition Read_v :: "'v RField \<Rightarrow> 'v \<Rightarrow> NTupleSize_t \<Rightarrow> RError + 'v" where
  "Read_v f obj globalIndex =
     (if unat globalIndex < length (fPrincipalColumn f)
      then Inr (fPrincipalColumn f ! unat globalIndex) else Inl OutOfRange)"

section \<open>Descriptor and page source\<close>

text \<open>
  Modelled from the spec: the metadata catalog \<^verbatim>\<open>RNTupleDescriptor\<close> and the page source
  \<^verbatim>\<open>Detail::RPageSource\<close>, which are not among the sources. The catalog finds a field
  identifier by name and scoping parent (the invalid identifier when there is none),
  gives a field's descriptor by identifier, and the display name of the dataset. The
  page source exposes the catalog and accepts a field's connect request, which binds the
  field to the column storage that serves its reads. \<open>fConnected\<close> records the connect
  requests the page source has received, oldest first.
\<close>

record 'v RFieldDescriptor =
  fFieldId :: DescriptorId_t
  fFieldName :: string
  fParentId :: DescriptorId_t
  fFieldType :: "'v FieldT"

record 'v RNTupleDescriptor =
  fName_d :: string
  fFieldDescriptors :: "'v RFieldDescriptor list"

record 'v RPageSource =
  fDescriptor :: "'v RNTupleDescriptor"
  fColumns :: "(DescriptorId_t \<times> 'v list) list"
  fConnected :: "DescriptorId_t list"

definition GetSharedDescriptorGuard :: "'v RPageSource \<Rightarrow> 'v RNTupleDescriptor" where
  "GetSharedDescriptorGuard pageSource = fDescriptor pageSource"

definition GetName :: "'v RNTupleDescriptor \<Rightarrow> string" where
  "GetName desc = fName_d desc"

definition GetFieldDescriptor ::
  "'v RNTupleDescriptor \<Rightarrow> DescriptorId_t \<Rightarrow> 'v RFieldDescriptor option" where
  "GetFieldDescriptor desc fieldId =
     find (\<lambda>fd. fFieldId fd = fieldId) (fFieldDescriptors desc)"

definition GetFieldName :: "'v RFieldDescriptor \<Rightarrow> string" where
  "GetFieldName fd = fFieldName fd"

definition FindFieldId ::
  "'v RNTupleDescriptor \<Rightarrow> string \<Rightarrow> DescriptorId_t \<Rightarrow> DescriptorId_t" where
  "FindFieldId desc fieldName parentId =
     (case find (\<lambda>fd. fFieldName fd = fieldName \<and> fParentId fd = parentId)
             (fFieldDescriptors desc) of
        None \<Rightarrow> kInvalidDescriptorId
      | Some fd \<Rightarrow> fFieldId fd)"

text \<open>
  Modelled from the spec: \<^verbatim>\<open>RFieldDescriptor::CreateField\<close>, the descriptor's factory,
  which builds the field object of the described kind.
\<close>

definition CreateField_fd :: "'v RFieldDescriptor \<Rightarrow> 'v RNTupleDescriptor \<Rightarrow> 'v RField" where
  "CreateField_fd fd desc = RField_ctor (fFieldType fd) (fFieldName fd)"

text \<open>
  Modelled from the spec: \<^verbatim>\<open>Internal::CallConnectPageSourceOnField\<close> of \<^verbatim>\<open>ROOT/RField.hxx\<close>,
  the connect request. It binds the field to the column stored under the field's on-disk
  id (no elements when there is none) and is recorded by the page source.
\<close>

definition column_of :: "'v RPageSource \<Rightarrow> DescriptorId_t \<Rightarrow> 'v list" where
  "column_of pageSource fieldId =
     (case map_of (fColumns pageSource) fieldId of None \<Rightarrow> [] | Some xs \<Rightarrow> xs)"

definition CallConnectPageSourceOnField ::
  "'v RField \<Rightarrow> 'v RPageSource \<Rightarrow> 'v RField \<times> 'v RPageSource" where
  "CallConnectPageSourceOnField f pageSource =
     (f\<lparr>fPrincipalColumn := column_of pageSource (fOnDiskId f)\<rparr>,
      pageSource\<lparr>fConnected := fConnected pageSource @ [fOnDiskId f]\<rparr>)"

section \<open>RNTupleView<T>\<close>

record 'v RNTupleView =
  fField :: "'v RField"
  fValue :: 'v

text \<open>
  The constructor, with the page source it was given as the second component of the
  result: the page source belongs to the caller, and what the constructor has done to
  it stays done when the constructor throws.
\<close>

definition RNTupleView_ctor ::
  "'v FieldT \<Rightarrow> DescriptorId_t \<Rightarrow> 'v RPageSource \<Rightarrow> (RError + 'v RNTupleView) \<times> 'v RPageSource" where
  "RNTupleView_ctor T fieldId pageSource =
     (case GetFieldDescriptor (GetSharedDescriptorGuard pageSource) fieldId of
        None \<Rightarrow> (Inl InvalidFieldId, pageSource)
      | Some fd \<Rightarrow>
          (let field0 = RField_ctor T (GetFieldName fd);
               value0 = CreateValue field0;
               field1 = SetOnDiskId field0 fieldId;
               (field2, pageSource') = CallConnectPageSourceOnField field1 pageSource
           in if (GetTraits field2 AND kTraitMappable) \<noteq> 0 \<and> HasReadCallbacks field2
              then (Inl (RException
                      ''view disallowed on field with mappable type and read callback''),
                    pageSource')
              else (Inr \<lparr>fField = field2, fValue = value0\<rparr>, pageSource')))"

definition GetFieldRange :: "'v RNTupleView \<Rightarrow> RNTupleGlobalRange" where
  "GetFieldRange view = RNTupleGlobalRange_ctor 0 (GetNElements (fField view))"

text \<open>
  What a reference returned by \<^verbatim>\<open>operator()\<close> refers to: an element of the decoded page
  (the mapped path), or the object held by the view's \<^verbatim>\<open>fValue\<close>. \<open>deref\<close> is the content
  a reference has in a given state of the view.
\<close>

datatype Ref = InPage NTupleSize_t | InValue

fun deref :: "'v RNTupleView \<Rightarrow> Ref \<Rightarrow> 'v option" where
  "deref view InValue = Some (fValue view)"
| "deref view (InPage i) =
     (if unat i < length (fPrincipalColumn (fField view))
      then Some (fPrincipalColumn (fField view) ! unat i) else None)"

text \<open>
  \<^verbatim>\<open>operator()(NTupleSize_t globalIndex)\<close>. The branch is taken at compile time on
  \<^verbatim>\<open>Internal::isMappable<FieldT>\<close>. The result is the reference, or the failure that
  \<^verbatim>\<open>Map\<close> or \<^verbatim>\<open>Read\<close> raised, together with the view after the call. The overload for
  \<^verbatim>\<open>RClusterIndex\<close> has the same body with the cluster index in place of the global one.
\<close>

definition RNTupleView_call ::
  "'v RNTupleView \<Rightarrow> NTupleSize_t \<Rightarrow> (RError + Ref) \<times> 'v RNTupleView" where
  "RNTupleView_call view globalIndex =
     (if fHasMap (fField view)
      then (case Map_f (fField view) globalIndex of
              Inl e \<Rightarrow> (Inl e, view)
            | Inr p \<Rightarrow> (Inr (InPage p), view))
      else (case Read_v (fField view) (fValue view) globalIndex of
              Inl e \<Rightarrow> (Inl e, view)
            | Inr obj \<Rightarrow> (Inr InValue, view\<lparr>fValue := obj\<rparr>)))"

section \<open>RNTupleView<void>\<close>

record 'v RNTupleView_void =
  fField_v :: "'v RField"
  fValue_v :: 'v

definition CreateField ::
  "DescriptorId_t \<Rightarrow> 'v RNTupleDescriptor \<Rightarrow> 'v RField option" where
  "CreateField fieldId desc =
     map_option (\<lambda>fd. CreateField_fd fd desc) (GetFieldDescriptor desc fieldId)"

definition RNTupleView_void_ctor ::
  "DescriptorId_t \<Rightarrow> 'v RPageSource \<Rightarrow> (RError + 'v RNTupleView_void) \<times> 'v RPageSource" where
  "RNTupleView_void_ctor fieldId pageSource =
     (case CreateField fieldId (GetSharedDescriptorGuard pageSource) of
        None \<Rightarrow> (Inl InvalidFieldId, pageSource)
      | Some field0 \<Rightarrow>
          (let value0 = CreateValue field0;
               field1 = SetOnDiskId field0 fieldId;
               (field2, pageSource') = CallConnectPageSourceOnField field1 pageSource
           in (Inr \<lparr>fField_v = field2, fValue_v = value0\<rparr>, pageSource')))"

text \<open>\<^verbatim>\<open>void operator()(NTupleSize_t globalIndex) { fValue.Read(globalIndex); }\<close>\<close>

definition RNTupleView_void_call ::
  "'v RNTupleView_void \<Rightarrow> NTupleSize_t \<Rightarrow> (RError + unit) \<times> 'v RNTupleView_void" where
  "RNTupleView_void_call view globalIndex =
     (case Read_v (fField_v view) (fValue_v view) globalIndex of
        Inl e \<Rightarrow> (Inl e, view)
      | Inr obj \<Rightarrow> (Inr (), view\<lparr>fValue_v := obj\<rparr>))"

section \<open>RNTupleCollectionView\<close>

text \<open>
  The class derives from \<^verbatim>\<open>RNTupleView<ClusterSize_t>\<close> and adds the field identifier of
  the collection. Its pointer \<^verbatim>\<open>fSource\<close> to the page source is passed to each operation
  as the page source itself.
\<close>

record 'v RNTupleCollectionView = "'v RNTupleView" +
  fCollectionFieldId :: DescriptorId_t

text \<open>
  The constructor runs the one of the base class for the field class
  \<^verbatim>\<open>RField<ClusterSize_t>\<close>, which \<^verbatim>\<open>ROOT/RField.hxx\<close> defines and which is a parameter
  here.
\<close>

definition RNTupleCollectionView_ctor ::
  "'v FieldT \<Rightarrow> DescriptorId_t \<Rightarrow> 'v RPageSource
     \<Rightarrow> (RError + 'v RNTupleCollectionView) \<times> 'v RPageSource" where
  "RNTupleCollectionView_ctor ClusterSizeT fieldId source =
     (case RNTupleView_ctor ClusterSizeT fieldId source of
        (Inl e, source') \<Rightarrow> (Inl e, source')
      | (Inr base, source') \<Rightarrow>
          (Inr \<lparr>fField = fField base, fValue = fValue base, fCollectionFieldId = fieldId\<rparr>,
           source'))"

text \<open>
  \<^verbatim>\<open>GetCollectionRange\<close>, one definition for each overload. The field's
  \<^verbatim>\<open>GetCollectionInfo\<close> is defined in \<^verbatim>\<open>ROOT/RField.hxx\<close>; it is a parameter here, and
  reports either a failure or the start of the children and their number.
\<close>

definition GetCollectionRange_global ::
  "('v RField \<Rightarrow> NTupleSize_t \<Rightarrow> RError + RClusterIndex \<times> ClusterSize_t)
     \<Rightarrow> 'v RNTupleCollectionView \<Rightarrow> NTupleSize_t \<Rightarrow> RError + RNTupleClusterRange" where
  "GetCollectionRange_global GetCollectionInfo view globalIndex =
     (case GetCollectionInfo (fField view) globalIndex of
        Inl e \<Rightarrow> Inl e
      | Inr (collectionStart, size') \<Rightarrow>
          Inr (RNTupleClusterRange_ctor (GetClusterId collectionStart) (GetIndex collectionStart)
                 (GetIndex collectionStart + size')))"

definition GetCollectionRange_cluster ::
  "('v RField \<Rightarrow> RClusterIndex \<Rightarrow> RError + RClusterIndex \<times> ClusterSize_t)
     \<Rightarrow> 'v RNTupleCollectionView \<Rightarrow> RClusterIndex \<Rightarrow> RError + RNTupleClusterRange" where
  "GetCollectionRange_cluster GetCollectionInfo view clusterIndex =
     (case GetCollectionInfo (fField view) clusterIndex of
        Inl e \<Rightarrow> Inl e
      | Inr (collectionStart, size') \<Rightarrow>
          Inr (RNTupleClusterRange_ctor (GetClusterId collectionStart) (GetIndex collectionStart)
                 (GetIndex collectionStart + size')))"

text \<open>
  \<^verbatim>\<open>operator()\<close> of the collection view, which hides the one of the base class: it asks
  \<^verbatim>\<open>GetCollectionInfo\<close> as well and returns the size.
\<close>

definition RNTupleCollectionView_call_global ::
  "('v RField \<Rightarrow> NTupleSize_t \<Rightarrow> RError + RClusterIndex \<times> ClusterSize_t)
     \<Rightarrow> 'v RNTupleCollectionView \<Rightarrow> NTupleSize_t \<Rightarrow> RError + ClusterSize_t" where
  "RNTupleCollectionView_call_global GetCollectionInfo view globalIndex =
     (case GetCollectionInfo (fField view) globalIndex of
        Inl e \<Rightarrow> Inl e
      | Inr (collectionStart, size') \<Rightarrow> Inr size')"

definition RNTupleCollectionView_call_cluster ::
  "('v RField \<Rightarrow> RClusterIndex \<Rightarrow> RError + RClusterIndex \<times> ClusterSize_t)
     \<Rightarrow> 'v RNTupleCollectionView \<Rightarrow> RClusterIndex \<Rightarrow> RError + ClusterSize_t" where
  "RNTupleCollectionView_call_cluster GetCollectionInfo view clusterIndex =
     (case GetCollectionInfo (fField view) clusterIndex of
        Inl e \<Rightarrow> Inl e
      | Inr (collectionStart, size') \<Rightarrow> Inr size')"

text \<open>
  The message of the failure of \<^verbatim>\<open>GetView\<close> and \<^verbatim>\<open>GetCollectionView\<close>:
  \<^verbatim>\<open>"no field named '" + fieldName + "' in RNTuple '" + name + "'"\<close>.
\<close>

definition no_field_named :: "string \<Rightarrow> string \<Rightarrow> string" where
  "no_field_named fieldName ntupleName =
     ''no field named '' @ [CHR 0x27] @ fieldName @ [CHR 0x27] @ '' in RNTuple '' @ [CHR 0x27]
       @ ntupleName @ [CHR 0x27]"

definition GetView ::
  "'v FieldT \<Rightarrow> string \<Rightarrow> 'v RNTupleCollectionView \<Rightarrow> 'v RPageSource
     \<Rightarrow> (RError + 'v RNTupleView) \<times> 'v RPageSource" where
  "GetView T fieldName view source =
     (let fieldId = FindFieldId (GetSharedDescriptorGuard source) fieldName
                      (fCollectionFieldId view)
      in if fieldId = kInvalidDescriptorId
         then (Inl (RException (no_field_named fieldName
                      (GetName (GetSharedDescriptorGuard source)))), source)
         else RNTupleView_ctor T fieldId source)"

definition GetCollectionView ::
  "'v FieldT \<Rightarrow> string \<Rightarrow> 'v RNTupleCollectionView \<Rightarrow> 'v RPageSource
     \<Rightarrow> (RError + 'v RNTupleCollectionView) \<times> 'v RPageSource" where
  "GetCollectionView ClusterSizeT fieldName view source =
     (let fieldId = FindFieldId (GetSharedDescriptorGuard source) fieldName
                      (fCollectionFieldId view)
      in if fieldId = kInvalidDescriptorId
         then (Inl (RException (no_field_named fieldName
                      (GetName (GetSharedDescriptorGuard source)))), source)
         else RNTupleCollectionView_ctor ClusterSizeT fieldId source)"

section \<open>Example data\<close>

text \<open>
  A dataset \<open>ntpl\<close> with one field \<open>pt\<close> of identifier \<open>7\<close>, whose kind is mappable and
  carries one read callback; a collection view over the field identifier \<open>1\<close>; a
  collection-info operation for each kind of index; and a view over a field without
  \<^verbatim>\<open>Map\<close> that holds three values.
\<close>

definition example_T :: "int FieldT" where
  "example_T = \<lparr>tHasMap = True, tTraits = 4, tReadCallbacks = 1, tDefault = 0\<rparr>"

definition example_source :: "int RPageSource" where
  "example_source =
     \<lparr>fDescriptor = \<lparr>fName_d = ''ntpl'',
        fFieldDescriptors = [\<lparr>fFieldId = 7, fFieldName = ''pt'', fParentId = 0,
                              fFieldType = example_T\<rparr>]\<rparr>,
      fColumns = [(7, [10, 20, 30])],
      fConnected = []\<rparr>"

definition example_collection :: "int RNTupleCollectionView" where
  "example_collection =
     \<lparr>fField = \<lparr>fName = ''jets'', fOnDiskId = 1, fHasMap = True, fTraits = 4,
                 fReadCallbacks = 0, fDefault = 0, fPrincipalColumn = []\<rparr>,
      fValue = 0, fCollectionFieldId = 1\<rparr>"

definition example_info_global ::
  "int RField \<Rightarrow> NTupleSize_t \<Rightarrow> RError + RClusterIndex \<times> ClusterSize_t" where
  "example_info_global f globalIndex =
     (if globalIndex = 2 then Inr (\<lparr>fClusterId = 5, fIndex = 4\<rparr>, 3) else Inl OutOfRange)"

definition example_info_cluster ::
  "int RField \<Rightarrow> RClusterIndex \<Rightarrow> RError + RClusterIndex \<times> ClusterSize_t" where
  "example_info_cluster f clusterIndex =
     (if clusterIndex = \<lparr>fClusterId = 5, fIndex = 0\<rparr>
      then Inr (\<lparr>fClusterId = 5, fIndex = 0\<rparr>, 2) else Inl OutOfRange)"

definition example_view :: "int RNTupleView" where
  "example_view =
     \<lparr>fField = \<lparr>fName = ''pt'', fOnDiskId = 7, fHasMap = False, fTraits = 0,
                 fReadCallbacks = 0, fDefault = 0, fPrincipalColumn = [10, 20, 30]\<rparr>,
      fValue = 0\<rparr>"

section \<open>The iteration loops\<close>

lemma unat_diff_suc:
  fixes s e :: "'a::len word"
  assumes "unat (e - s) = Suc n"
  shows "unat (e - (s + 1)) = n"
proof -
  have "e \<noteq> s"
    using assms by auto
  then show ?thesis
    using unat_diff_step [of e s] assms by simp
qed

lemma upt_shift_map:
  fixes s :: "'a::len word"
  shows "map (\<lambda>k. f (s + of_nat k)) [0..<Suc n] =
         f s # map (\<lambda>k. f ((s + 1) + of_nat k)) [0..<n]"
proof -
  have "[0..<Suc n] = 0 # map Suc [0..<n]"
    by (simp add: upt_conv_Cons map_Suc_upt del: upt_Suc)
  then show ?thesis
    by (simp add: o_def add.assoc del: upt_Suc)
qed

lemma loop_g_steps:
  "unat (fIndex_g e - fIndex_g it) = n \<Longrightarrow>
   loop_g it e = map (\<lambda>k. fIndex_g it + of_nat k) [0..<n]"
proof (induction n arbitrary: it)
  case 0
  then have "fIndex_g it = fIndex_g e"
    by (simp add: unat_eq_0)
  then show ?case
    by (simp add: neq_g_def)
next
  case (Suc n)
  then have ne: "neq_g it e"
    by (auto simp: neq_g_def)
  have "unat (fIndex_g e - fIndex_g (preinc_g it)) = n"
    using unat_diff_suc [OF Suc.prems] by (simp add: preinc_g_def)
  then have "loop_g (preinc_g it) e = map (\<lambda>k. fIndex_g (preinc_g it) + of_nat k) [0..<n]"
    by (rule Suc.IH)
  then have "loop_g it e = fIndex_g it # map (\<lambda>k. (fIndex_g it + 1) + of_nat k) [0..<n]"
    using ne by (simp add: deref_g_def preinc_g_def)
  then show ?case
    by (simp only: upt_shift_map [where f = "\<lambda>x. x"])
qed

lemma loop_c_steps:
  "fClusterId (fIndex_c it) = fClusterId (fIndex_c e) \<Longrightarrow>
   unat (fIndex (fIndex_c e) - fIndex (fIndex_c it)) = n \<Longrightarrow>
   loop_c it e =
     Some (map (\<lambda>k. \<lparr>fClusterId = fClusterId (fIndex_c it),
                      fIndex = fIndex (fIndex_c it) + of_nat k\<rparr>) [0..<n])"
proof (induction n arbitrary: it)
  case 0
  then have "fIndex (fIndex_c it) = fIndex (fIndex_c e)"
    by (simp add: unat_eq_0)
  then have "\<not> neq_c it e"
    using "0.prems"(1) by (simp add: neq_c_def neq_ci_def eq_ci_def)
  then show ?case
    by (subst loop_c.simps) simp
next
  case (Suc n)
  then have ne: "neq_c it e"
    by (auto simp: neq_c_def neq_ci_def eq_ci_def)
  have cid: "fClusterId (fIndex_c (preinc_c it)) = fClusterId (fIndex_c e)"
    using Suc.prems(1) by (simp add: preinc_c_def postinc_ci_def)
  have idx: "fIndex (fIndex_c (preinc_c it)) = fIndex (fIndex_c it) + 1"
    by (simp add: preinc_c_def postinc_ci_def)
  have "unat (fIndex (fIndex_c e) - fIndex (fIndex_c (preinc_c it))) = n"
    using unat_diff_suc [OF Suc.prems(2)] by (simp only: idx)
  from Suc.IH [OF cid this]
  have rest: "loop_c (preinc_c it) e =
      Some (map (\<lambda>k. \<lparr>fClusterId = fClusterId (fIndex_c it),
                       fIndex = (fIndex (fIndex_c it) + 1) + of_nat k\<rparr>) [0..<n])"
    by (simp add: idx preinc_c_def postinc_ci_def)
  have "loop_c it e = Some (fIndex_c it #
      map (\<lambda>k. \<lparr>fClusterId = fClusterId (fIndex_c it),
                 fIndex = (fIndex (fIndex_c it) + 1) + of_nat k\<rparr>) [0..<n])"
    by (subst loop_c.simps) (simp add: ne rest deref_c_def)
  then show ?case
    by (simp only: upt_shift_map
          [where f = "\<lambda>x. \<lparr>fClusterId = fClusterId (fIndex_c it), fIndex = x\<rparr>"]) simp
qed

lemma map_of_nat_upt:
  fixes s e :: "'a::len word"
  assumes "s \<le> e"
  shows "map (\<lambda>k. f (s + of_nat k)) [0..<unat (e - s)] = map (\<lambda>k. f (of_nat k)) [unat s..<unat e]"
proof -
  have len: "unat (e - s) = unat e - unat s"
    using assms by (simp add: unat_sub)
  have le: "unat s \<le> unat e"
    using assms by (simp add: word_le_nat_alt)
  have "[unat s..<unat e] = map (\<lambda>i. i + unat s) [0..<unat e - unat s]"
    using le by (simp add: map_add_upt)
  then have "map (\<lambda>k. f (of_nat k)) [unat s..<unat e] =
      map (\<lambda>k. f (of_nat (k + unat s))) [0..<unat e - unat s]"
    by (simp add: o_def)
  also have "\<dots> = map (\<lambda>k. f (s + of_nat k)) [0..<unat e - unat s]"
    by (simp add: add.commute)
  finally show ?thesis
    by (simp add: len)
qed

section \<open>Lemmas about the views\<close>

lemma connect_simps:
  "fst (CallConnectPageSourceOnField f pageSource)
     = f\<lparr>fPrincipalColumn := column_of pageSource (fOnDiskId f)\<rparr>"
  "snd (CallConnectPageSourceOnField f pageSource)
     = pageSource\<lparr>fConnected := fConnected pageSource @ [fOnDiskId f]\<rparr>"
  by (simp_all add: CallConnectPageSourceOnField_def)

lemma RNTupleView_ctor_Some:
  assumes "GetFieldDescriptor (GetSharedDescriptorGuard pageSource) fieldId = Some fd"
  shows "RNTupleView_ctor T fieldId pageSource =
     (if (tTraits T AND kTraitMappable) \<noteq> 0 \<and> tReadCallbacks T \<noteq> 0
      then Inl (RException ''view disallowed on field with mappable type and read callback'')
      else Inr \<lparr>fField = \<lparr>fName = GetFieldName fd, fOnDiskId = fieldId, fHasMap = tHasMap T,
                          fTraits = tTraits T, fReadCallbacks = tReadCallbacks T,
                          fDefault = tDefault T,
                          fPrincipalColumn = column_of pageSource fieldId\<rparr>,
               fValue = tDefault T\<rparr>,
      pageSource\<lparr>fConnected := fConnected pageSource @ [fieldId]\<rparr>)"
  using assms
  by (simp add: RNTupleView_ctor_def CallConnectPageSourceOnField_def RField_ctor_def
      CreateValue_def SetOnDiskId_def GetTraits_def HasReadCallbacks_def)

lemma loop_c_from_start:
  "iterate_c (RNTupleClusterRange_ctor c s (s + n))
     = Some (map (\<lambda>k. RClusterIndex_ctor c (s + of_nat k)) [0..<unat n])"
proof -
  have "iterate_c (RNTupleClusterRange_ctor c s (s + n))
      = Some (map (\<lambda>k. \<lparr>fClusterId = c, fIndex = s + of_nat k\<rparr>) [0..<unat ((s + n) - s)])"
    unfolding iterate_c_def
    by (rule loop_c_steps [THEN trans])
       (simp_all add: begin_c_def end_c_def ClusterRIterator_ctor_def RClusterIndex_ctor_def
          RNTupleClusterRange_ctor_def)
  then show ?thesis
    by (simp add: RClusterIndex_ctor_def)
qed

section \<open>Properties of the ranges\<close>

text \<open>
  C6. For all \<open>start \<le> end\<close>, the loop over \<^verbatim>\<open>RNTupleGlobalRange(start, end)\<close> from
  \<^verbatim>\<open>begin()\<close> to \<^verbatim>\<open>end()\<close> visits exactly \<open>start, start + 1, \<dots>, end - 1\<close>, that is
  \<open>end - start\<close> indices. The members of the range are \<^verbatim>\<open>const\<close> and \<^verbatim>\<open>begin()\<close>,
  \<^verbatim>\<open>end()\<close> build fresh iterators from them, so a second loop over the same object
  visits the same indices again: two loops in a row give the sequence twice. The
  constructor stores the two bounds and has no page source to touch.
\<close>

theorem global_range_iteration:
  assumes "start \<le> end'"
  shows "iterate_g (RNTupleGlobalRange_ctor start end') = map of_nat [unat start..<unat end']
       \<and> length (iterate_g (RNTupleGlobalRange_ctor start end')) = unat end' - unat start
       \<and> unat (end' - start) = unat end' - unat start
       \<and> iterate_g (RNTupleGlobalRange_ctor start end') @ iterate_g (RNTupleGlobalRange_ctor start end')
           = map of_nat [unat start..<unat end'] @ map of_nat [unat start..<unat end']
       \<and> RNTupleGlobalRange_ctor start end' = \<lparr>fStart_g = start, fEnd_g = end'\<rparr>"
proof -
  let ?r = "RNTupleGlobalRange_ctor start end'"
  have "iterate_g ?r = map (\<lambda>k. start + of_nat k) [0..<unat (end' - start)]"
    unfolding iterate_g_def
    by (rule loop_g_steps [THEN trans])
       (simp_all add: begin_g_def end_g_def GlobalRIterator_ctor_def RNTupleGlobalRange_ctor_def)
  also have "\<dots> = map of_nat [unat start..<unat end']"
    using map_of_nat_upt [OF assms, where f = "\<lambda>x. x"] by simp
  finally have seq: "iterate_g ?r = map of_nat [unat start..<unat end']" .
  have len: "unat (end' - start) = unat end' - unat start"
    using assms by (simp add: unat_sub)
  show ?thesis
    by (simp add: seq len) (simp add: RNTupleGlobalRange_ctor_def)
qed

theorem global_range_iteration_witness:
  "(3 :: NTupleSize_t) \<le> 7
   \<and> iterate_g (RNTupleGlobalRange_ctor 3 7) = [3, 4, 5, 6]
   \<and> length (iterate_g (RNTupleGlobalRange_ctor 3 7)) = 4"
  using global_range_iteration [of 3 7] by (simp add: upt_rec RNTupleGlobalRange_ctor_def)

text \<open>
  C7. For all \<open>start \<le> end\<close> and a cluster id \<open>c\<close>, the loop over
  \<^verbatim>\<open>RNTupleClusterRange(c, start, end)\<close> ends and visits exactly the cluster indices
  \<open>(c, start), (c, start + 1), \<dots>, (c, end - 1)\<close>; every one of them carries the cluster
  id \<open>c\<close>.
\<close>

theorem cluster_range_iteration:
  assumes "start \<le> end'"
  shows "iterate_c (RNTupleClusterRange_ctor c start end')
           = Some (map (\<lambda>k. RClusterIndex_ctor c (of_nat k)) [unat start..<unat end'])
       \<and> map_option (map GetClusterId) (iterate_c (RNTupleClusterRange_ctor c start end'))
           = Some (replicate (unat end' - unat start) c)"
proof -
  let ?r = "RNTupleClusterRange_ctor c start end'"
  have "iterate_c ?r = Some (map (\<lambda>k. \<lparr>fClusterId = c, fIndex = start + of_nat k\<rparr>)
                               [0..<unat (end' - start)])"
    unfolding iterate_c_def
    by (rule loop_c_steps [THEN trans])
       (simp_all add: begin_c_def end_c_def ClusterRIterator_ctor_def RClusterIndex_ctor_def
          RNTupleClusterRange_ctor_def)
  also have "map (\<lambda>k. \<lparr>fClusterId = c, fIndex = start + of_nat k\<rparr>) [0..<unat (end' - start)]
      = map (\<lambda>k. \<lparr>fClusterId = c, fIndex = of_nat k\<rparr>) [unat start..<unat end']"
    by (rule map_of_nat_upt [OF assms, where f = "\<lambda>x. \<lparr>fClusterId = c, fIndex = x\<rparr>"])
  finally have seq: "iterate_c ?r
      = Some (map (\<lambda>k. RClusterIndex_ctor c (of_nat k)) [unat start..<unat end'])"
    by (simp add: RClusterIndex_ctor_def)
  have "map GetClusterId (map (\<lambda>k. RClusterIndex_ctor c (of_nat k)) [unat start..<unat end'])
      = replicate (unat end' - unat start) c"
    by (simp add: map_replicate_const GetClusterId_def RClusterIndex_ctor_def o_def)
  then show ?thesis
    by (simp only: seq option.map simp_thms)
qed

theorem cluster_range_iteration_witness:
  "(2 :: ClusterSize_t) \<le> 5
   \<and> iterate_c (RNTupleClusterRange_ctor 9 2 5)
       = Some [\<lparr>fClusterId = 9, fIndex = 2\<rparr>, \<lparr>fClusterId = 9, fIndex = 3\<rparr>,
               \<lparr>fClusterId = 9, fIndex = 4\<rparr>]
   \<and> map_option (map GetClusterId) (iterate_c (RNTupleClusterRange_ctor 9 2 5)) = Some [9, 9, 9]"
  using cluster_range_iteration [of 2 5 9]
  by (simp add: upt_rec RClusterIndex_ctor_def GetClusterId_def)

text \<open>
  C10. For every \<open>s\<close> and every cluster id \<open>c\<close>, the begin and end iterators of
  \<^verbatim>\<open>RNTupleGlobalRange(s, s)\<close> and of \<^verbatim>\<open>RNTupleClusterRange(c, s, s)\<close> compare equal, and
  the loop over either range visits nothing.
\<close>

theorem degenerate_ranges_empty:
  "eq_g (begin_g (RNTupleGlobalRange_ctor s s)) (end_g (RNTupleGlobalRange_ctor s s))
   \<and> iterate_g (RNTupleGlobalRange_ctor s s) = []
   \<and> eq_c (begin_c (RNTupleClusterRange_ctor c s s)) (end_c (RNTupleClusterRange_ctor c s s))
   \<and> iterate_c (RNTupleClusterRange_ctor c s s) = Some []"
proof -
  have g: "begin_g (RNTupleGlobalRange_ctor s s) = end_g (RNTupleGlobalRange_ctor s s)"
    by (simp add: begin_g_def end_g_def RNTupleGlobalRange_ctor_def)
  have c: "begin_c (RNTupleClusterRange_ctor c s s) = end_c (RNTupleClusterRange_ctor c s s)"
    by (simp add: begin_c_def end_c_def RNTupleClusterRange_ctor_def)
  have "iterate_g (RNTupleGlobalRange_ctor s s) = []"
    by (simp add: iterate_g_def g neq_g_def)
  moreover have "iterate_c (RNTupleClusterRange_ctor c s s) = Some []"
    unfolding iterate_c_def c
    by (subst loop_c.simps) (simp add: neq_c_def neq_ci_def eq_ci_def)
  ultimately show ?thesis
    by (simp add: g c eq_g_def eq_c_def eq_ci_def)
qed

section \<open>Properties of the views\<close>

text \<open>
  C1, as the code has it. Constructing \<^verbatim>\<open>RNTupleView<T>\<close> over a field that is
  zero-copy-mappable and has a registered read callback fails with the
  \<^verbatim>\<open>view disallowed\<close> exception; with no registered callback it gives the view. The check
  is the last statement of the constructor: in both cases the field has been connected
  to the page source by then, and the page source has received the connect request.
\<close>

theorem typed_view_ctor_check:
  assumes "GetFieldDescriptor (GetSharedDescriptorGuard pageSource) fieldId = Some fd"
      and "(tTraits T AND kTraitMappable) \<noteq> 0"
  shows "(tReadCallbacks T \<noteq> 0 \<longrightarrow>
            RNTupleView_ctor T fieldId pageSource =
              (Inl (RException ''view disallowed on field with mappable type and read callback''),
               snd (CallConnectPageSourceOnField
                      (SetOnDiskId (RField_ctor T (GetFieldName fd)) fieldId) pageSource)))
       \<and> (tReadCallbacks T = 0 \<longrightarrow>
            RNTupleView_ctor T fieldId pageSource =
              (Inr \<lparr>fField = fst (CallConnectPageSourceOnField
                                    (SetOnDiskId (RField_ctor T (GetFieldName fd)) fieldId)
                                    pageSource),
                     fValue = tDefault T\<rparr>,
               snd (CallConnectPageSourceOnField
                      (SetOnDiskId (RField_ctor T (GetFieldName fd)) fieldId) pageSource)))
       \<and> fConnected (snd (RNTupleView_ctor T fieldId pageSource))
           = fConnected pageSource @ [fieldId]"
  using assms(2)
  by (simp add: RNTupleView_ctor_Some [OF assms(1)] connect_simps SetOnDiskId_def RField_ctor_def)

theorem typed_view_ctor_check_witness:
  "GetFieldDescriptor (GetSharedDescriptorGuard example_source) 7
     = Some \<lparr>fFieldId = 7, fFieldName = ''pt'', fParentId = 0, fFieldType = example_T\<rparr>
   \<and> (tTraits example_T AND kTraitMappable) \<noteq> 0
   \<and> tReadCallbacks example_T \<noteq> 0
   \<and> fst (RNTupleView_ctor example_T 7 example_source)
       = Inl (RException ''view disallowed on field with mappable type and read callback'')
   \<and> tReadCallbacks (example_T\<lparr>tReadCallbacks := 0\<rparr>) = 0
   \<and> fst (RNTupleView_ctor (example_T\<lparr>tReadCallbacks := 0\<rparr>) 7 example_source)
       = Inr \<lparr>fField = \<lparr>fName = ''pt'', fOnDiskId = 7, fHasMap = True, fTraits = 4,
                         fReadCallbacks = 0, fDefault = 0, fPrincipalColumn = [10, 20, 30]\<rparr>,
              fValue = 0\<rparr>"
proof -
  have d: "GetFieldDescriptor (GetSharedDescriptorGuard example_source) 7
     = Some \<lparr>fFieldId = 7, fFieldName = ''pt'', fParentId = 0, fFieldType = example_T\<rparr>"
    by (simp add: GetFieldDescriptor_def GetSharedDescriptorGuard_def example_source_def)
  have m: "(tTraits example_T AND kTraitMappable) \<noteq> 0"
    by (simp add: example_T_def kTraitMappable_def)
  have m0: "(tTraits (example_T\<lparr>tReadCallbacks := 0\<rparr>) AND kTraitMappable) \<noteq> 0"
    by (simp add: example_T_def kTraitMappable_def)
  show ?thesis
    using typed_view_ctor_check [OF d m] typed_view_ctor_check [OF d m0] d m
    by (simp add: connect_simps SetOnDiskId_def RField_ctor_def GetFieldName_def column_of_def)
       (simp add: example_T_def example_source_def)
qed

text \<open>
  C1 as stated says that the failure comes before any storage connection is attempted.
  For the field \<open>7\<close> of the example, mappable and with one read callback, the
  constructor fails, and the page source, which had no connection before, has received
  the connect request of field \<open>7\<close>.
\<close>

theorem typed_view_connects_before_check_counterexample:
  "fst (RNTupleView_ctor example_T 7 example_source)
     = Inl (RException ''view disallowed on field with mappable type and read callback'')
   \<and> fConnected example_source = []
   \<and> fConnected (snd (RNTupleView_ctor example_T 7 example_source)) = [7]"
  by (simp add: RNTupleView_ctor_def GetFieldDescriptor_def GetSharedDescriptorGuard_def
      CallConnectPageSourceOnField_def RField_ctor_def CreateValue_def SetOnDiskId_def
      GetTraits_def HasReadCallbacks_def GetFieldName_def kTraitMappable_def
      example_source_def example_T_def)

text \<open>
  C2, as the code has it. The constructor of \<^verbatim>\<open>RNTupleView<void>\<close> has no check of
  traits and callbacks: for every field identifier the descriptor knows it creates the
  field from the descriptor, sets the on-disk id, connects the field and returns the
  view, whatever the traits of the field and however many read callbacks it carries.
\<close>

theorem erased_view_ctor_no_check:
  assumes "GetFieldDescriptor (GetSharedDescriptorGuard pageSource) fieldId = Some fd"
  shows "RNTupleView_void_ctor fieldId pageSource =
           (Inr \<lparr>fField_v = fst (CallConnectPageSourceOnField
                                   (SetOnDiskId (CreateField_fd fd (GetSharedDescriptorGuard pageSource))
                                      fieldId) pageSource),
                  fValue_v = CreateValue (CreateField_fd fd (GetSharedDescriptorGuard pageSource))\<rparr>,
            snd (CallConnectPageSourceOnField
                   (SetOnDiskId (CreateField_fd fd (GetSharedDescriptorGuard pageSource)) fieldId)
                   pageSource))
       \<and> GetTraits (fField_v (projr (fst (RNTupleView_void_ctor fieldId pageSource))))
           = tTraits (fFieldType fd)
       \<and> HasReadCallbacks (fField_v (projr (fst (RNTupleView_void_ctor fieldId pageSource))))
           = (tReadCallbacks (fFieldType fd) \<noteq> 0)"
  using assms
  by (simp add: RNTupleView_void_ctor_def CreateField_def split_beta Let_def
      CallConnectPageSourceOnField_def GetTraits_def HasReadCallbacks_def SetOnDiskId_def
      CreateField_fd_def RField_ctor_def)

theorem erased_view_ctor_no_check_witness:
  "GetFieldDescriptor (GetSharedDescriptorGuard example_source) 7
     = Some \<lparr>fFieldId = 7, fFieldName = ''pt'', fParentId = 0, fFieldType = example_T\<rparr>
   \<and> RNTupleView_void_ctor 7 example_source =
       (Inr \<lparr>fField_v = \<lparr>fName = ''pt'', fOnDiskId = 7, fHasMap = True, fTraits = 4,
                           fReadCallbacks = 1, fDefault = 0, fPrincipalColumn = [10, 20, 30]\<rparr>,
              fValue_v = 0\<rparr>,
        example_source\<lparr>fConnected := [7]\<rparr>)"
proof -
  have d: "GetFieldDescriptor (GetSharedDescriptorGuard example_source) 7
     = Some \<lparr>fFieldId = 7, fFieldName = ''pt'', fParentId = 0, fFieldType = example_T\<rparr>"
    by (simp add: GetFieldDescriptor_def GetSharedDescriptorGuard_def example_source_def)
  show ?thesis
    using erased_view_ctor_no_check [OF d] d
    by (simp add: connect_simps SetOnDiskId_def RField_ctor_def CreateField_fd_def
          CreateValue_def column_of_def)
       (simp add: example_T_def example_source_def)
qed

text \<open>
  C2 as stated says that this construction fails on a mappable field with a read
  callback. The field \<open>7\<close> of the example is such a field, and the constructor returns
  the view.
\<close>

theorem erased_view_mappable_callback_counterexample:
  "(GetTraits (RField_ctor example_T ''pt'') AND kTraitMappable) \<noteq> 0
   \<and> HasReadCallbacks (RField_ctor example_T ''pt'')
   \<and> fst (RNTupleView_void_ctor 7 example_source) =
       Inr \<lparr>fField_v = \<lparr>fName = ''pt'', fOnDiskId = 7, fHasMap = True, fTraits = 4,
                          fReadCallbacks = 1, fDefault = 0, fPrincipalColumn = [10, 20, 30]\<rparr>,
             fValue_v = 0\<rparr>"
  by (simp add: RNTupleView_void_ctor_def CreateField_def CreateField_fd_def
      GetFieldDescriptor_def GetSharedDescriptorGuard_def
      CallConnectPageSourceOnField_def RField_ctor_def CreateValue_def SetOnDiskId_def
      GetTraits_def HasReadCallbacks_def kTraitMappable_def column_of_def
      example_source_def example_T_def)

text \<open>
  C3. When the name does not resolve under the collection's field identifier,
  \<^verbatim>\<open>GetView<T>\<close> and \<^verbatim>\<open>GetCollectionView\<close> fail with the exception whose message is
  \<^verbatim>\<open>no field named '<name>' in RNTuple '<dataset>'\<close>; the message contains the requested
  name and the dataset's name, and the page source is as before: no view constructor
  has run and no field has been connected.
\<close>

theorem child_view_not_found:
  assumes "FindFieldId (GetSharedDescriptorGuard source) fieldName (fCollectionFieldId view)
             = kInvalidDescriptorId"
  shows "GetView T fieldName view source =
           (Inl (RException (no_field_named fieldName (GetName (GetSharedDescriptorGuard source)))),
            source)
       \<and> GetCollectionView ClusterSizeT fieldName view source =
           (Inl (RException (no_field_named fieldName (GetName (GetSharedDescriptorGuard source)))),
            source)
       \<and> no_field_named fieldName (GetName (GetSharedDescriptorGuard source)) =
           ''no field named '' @ [CHR 0x27] @ fieldName @ [CHR 0x27] @ '' in RNTuple ''
             @ [CHR 0x27] @ GetName (GetSharedDescriptorGuard source) @ [CHR 0x27]
       \<and> sublist fieldName (no_field_named fieldName (GetName (GetSharedDescriptorGuard source)))
       \<and> sublist (GetName (GetSharedDescriptorGuard source))
           (no_field_named fieldName (GetName (GetSharedDescriptorGuard source)))"
proof -
  let ?n = "GetName (GetSharedDescriptorGuard source)"
  have "no_field_named fieldName ?n
      = (''no field named '' @ [CHR 0x27]) @ fieldName @ ([CHR 0x27] @ '' in RNTuple ''
             @ [CHR 0x27] @ ?n @ [CHR 0x27])"
    by (simp add: no_field_named_def)
  then have s1: "sublist fieldName (no_field_named fieldName ?n)"
    unfolding sublist_def by blast
  have "no_field_named fieldName ?n
      = (''no field named '' @ [CHR 0x27] @ fieldName @ [CHR 0x27] @ '' in RNTuple ''
             @ [CHR 0x27]) @ ?n @ [CHR 0x27]"
    by (simp add: no_field_named_def)
  then have s2: "sublist ?n (no_field_named fieldName ?n)"
    unfolding sublist_def by blast
  show ?thesis
    using assms s1 s2 by (simp add: GetView_def GetCollectionView_def) (simp add: no_field_named_def)
qed

theorem child_view_not_found_witness:
  "FindFieldId (GetSharedDescriptorGuard example_source) ''missing''
       (fCollectionFieldId example_collection) = kInvalidDescriptorId
   \<and> GetView example_T ''missing'' example_collection example_source =
       (Inl (RException (no_field_named ''missing'' ''ntpl'')), example_source)
   \<and> GetCollectionView example_T ''missing'' example_collection example_source =
       (Inl (RException (no_field_named ''missing'' ''ntpl'')), example_source)
   \<and> no_field_named ''missing'' ''ntpl'' =
       ''no field named '' @ [CHR 0x27] @ ''missing'' @ [CHR 0x27] @ '' in RNTuple ''
         @ [CHR 0x27] @ ''ntpl'' @ [CHR 0x27]
   \<and> sublist ''missing'' (no_field_named ''missing'' ''ntpl'')
   \<and> sublist ''ntpl'' (no_field_named ''missing'' ''ntpl'')"
proof -
  have f: "FindFieldId (GetSharedDescriptorGuard example_source) ''missing''
       (fCollectionFieldId example_collection) = kInvalidDescriptorId"
    by (simp add: FindFieldId_def GetSharedDescriptorGuard_def example_source_def)
  have n: "GetName (GetSharedDescriptorGuard example_source) = ''ntpl''"
    by (simp add: GetName_def GetSharedDescriptorGuard_def example_source_def)
  note t = child_view_not_found [OF f, of example_T example_T, unfolded n]
  show ?thesis
    using f t by blast
qed

text \<open>
  C4. Whenever the field's \<^verbatim>\<open>GetCollectionInfo\<close> reports a start and a size for the index
  (global or cluster-local), \<^verbatim>\<open>GetCollectionRange\<close> returns the range
  \<open>[start, start + size)\<close> in the cluster of the reported start, and the loop over this
  range visits exactly \<open>size\<close> cluster indices, beginning at the reported start.
\<close>

theorem collection_range_of_info:
  "(info_g (fField view) globalIndex = Inr (start_g, n_g) \<longrightarrow>
      (\<exists>r. GetCollectionRange_global info_g view globalIndex = Inr r
         \<and> r = RNTupleClusterRange_ctor (GetClusterId start_g) (GetIndex start_g)
                 (GetIndex start_g + n_g)
         \<and> fClusterId_c r = GetClusterId start_g
         \<and> iterate_c r
             = Some (map (\<lambda>k. RClusterIndex_ctor (GetClusterId start_g) (GetIndex start_g + of_nat k))
                       [0..<unat n_g])
         \<and> map_option length (iterate_c r) = Some (unat n_g)))
   \<and> (info_c (fField view) clusterIndex = Inr (start_c, n_c) \<longrightarrow>
      (\<exists>r. GetCollectionRange_cluster info_c view clusterIndex = Inr r
         \<and> r = RNTupleClusterRange_ctor (GetClusterId start_c) (GetIndex start_c)
                 (GetIndex start_c + n_c)
         \<and> fClusterId_c r = GetClusterId start_c
         \<and> iterate_c r
             = Some (map (\<lambda>k. RClusterIndex_ctor (GetClusterId start_c) (GetIndex start_c + of_nat k))
                       [0..<unat n_c])
         \<and> map_option length (iterate_c r) = Some (unat n_c)))"
proof -
  have id: "fClusterId_c (RNTupleClusterRange_ctor c s e) = c" for c s e
    by (simp add: RNTupleClusterRange_ctor_def)
  show ?thesis
    by (simp add: GetCollectionRange_global_def GetCollectionRange_cluster_def
        loop_c_from_start id)
qed

theorem collection_range_of_info_witness:
  "example_info_global (fField example_collection) 2 = Inr (\<lparr>fClusterId = 5, fIndex = 4\<rparr>, 3)
   \<and> GetCollectionRange_global example_info_global example_collection 2
       = Inr \<lparr>fClusterId_c = 5, fStart_c = 4, fEnd_c = 7\<rparr>
   \<and> map_option length (iterate_c \<lparr>fClusterId_c = 5, fStart_c = 4, fEnd_c = 7\<rparr>) = Some 3
   \<and> example_info_cluster (fField example_collection) \<lparr>fClusterId = 5, fIndex = 0\<rparr>
       = Inr (\<lparr>fClusterId = 5, fIndex = 0\<rparr>, 2)
   \<and> GetCollectionRange_cluster example_info_cluster example_collection \<lparr>fClusterId = 5, fIndex = 0\<rparr>
       = Inr \<lparr>fClusterId_c = 5, fStart_c = 0, fEnd_c = 2\<rparr>
   \<and> map_option length (iterate_c \<lparr>fClusterId_c = 5, fStart_c = 0, fEnd_c = 2\<rparr>) = Some 2"
proof -
  have g: "example_info_global (fField example_collection) 2 = Inr (\<lparr>fClusterId = 5, fIndex = 4\<rparr>, 3)"
    by (simp add: example_info_global_def)
  have c: "example_info_cluster (fField example_collection) \<lparr>fClusterId = 5, fIndex = 0\<rparr>
       = Inr (\<lparr>fClusterId = 5, fIndex = 0\<rparr>, 2)"
    by (simp add: example_info_cluster_def)
  show ?thesis
    using g c
      collection_range_of_info [of example_info_global example_collection 2
        "\<lparr>fClusterId = 5, fIndex = 4\<rparr>" 3 example_info_cluster
        "\<lparr>fClusterId = 5, fIndex = 0\<rparr>" "\<lparr>fClusterId = 5, fIndex = 0\<rparr>" 2]
    by (auto simp: RNTupleClusterRange_ctor_def GetClusterId_def GetIndex_def)
qed

text \<open>
  C5. Whenever applying the collection view to an index (global or cluster-local)
  returns a value, \<^verbatim>\<open>GetCollectionRange\<close> at the same index returns a range, and the
  number of cluster indices the loop over that range visits is the value returned. The
  operator applied is the one \<^verbatim>\<open>RNTupleCollectionView\<close> defines.
\<close>

theorem collection_call_is_range_length:
  "(RNTupleCollectionView_call_global info_g view globalIndex = Inr n_g \<longrightarrow>
      (\<exists>r. GetCollectionRange_global info_g view globalIndex = Inr r
           \<and> map_option length (iterate_c r) = Some (unat n_g)))
   \<and> (RNTupleCollectionView_call_cluster info_c view clusterIndex = Inr n_c \<longrightarrow>
      (\<exists>r. GetCollectionRange_cluster info_c view clusterIndex = Inr r
           \<and> map_option length (iterate_c r) = Some (unat n_c)))"
  by (auto simp: RNTupleCollectionView_call_global_def RNTupleCollectionView_call_cluster_def
      GetCollectionRange_global_def GetCollectionRange_cluster_def loop_c_from_start
      split: sum.splits)

theorem collection_call_is_range_length_witness:
  "RNTupleCollectionView_call_global example_info_global example_collection 2 = Inr 3
   \<and> (\<exists>r. GetCollectionRange_global example_info_global example_collection 2 = Inr r
         \<and> map_option length (iterate_c r) = Some (unat (3 :: ClusterSize_t)))
   \<and> RNTupleCollectionView_call_cluster example_info_cluster example_collection
        \<lparr>fClusterId = 5, fIndex = 0\<rparr> = Inr 2
   \<and> (\<exists>r. GetCollectionRange_cluster example_info_cluster example_collection
              \<lparr>fClusterId = 5, fIndex = 0\<rparr> = Inr r
         \<and> map_option length (iterate_c r) = Some (unat (2 :: ClusterSize_t)))"
proof -
  have g: "RNTupleCollectionView_call_global example_info_global example_collection 2 = Inr 3"
    by (simp add: RNTupleCollectionView_call_global_def example_info_global_def)
  have c: "RNTupleCollectionView_call_cluster example_info_cluster example_collection
        \<lparr>fClusterId = 5, fIndex = 0\<rparr> = Inr 2"
    by (simp add: RNTupleCollectionView_call_cluster_def example_info_cluster_def)
  show ?thesis
    using g c
      collection_call_is_range_length [of example_info_global example_collection 2 3
        example_info_cluster "\<lparr>fClusterId = 5, fIndex = 0\<rparr>" 2]
    by blast
qed

text \<open>
  C8. For a view whose field class has no \<^verbatim>\<open>Map\<close> and whose field holds the values
  \<open>v\<^sub>0 \<dots> v\<^sub>N\<^sub>-\<^sub>1\<close>, \<^verbatim>\<open>operator()(i)\<close> with \<open>i < N\<close> returns a reference whose content is
  \<open>v\<^sub>i\<close>; a following \<^verbatim>\<open>operator()(j)\<close> with \<open>j < N\<close> returns the same reference, and the
  content of the reference returned first is now \<open>v\<^sub>j\<close>: both refer to the one holder of
  the view.
\<close>

theorem nonmappable_access_reuses_holder:
  assumes "\<not> fHasMap (fField view)"
      and "unat i < length (fPrincipalColumn (fField view))"
      and "unat j < length (fPrincipalColumn (fField view))"
  shows "\<exists>r view1 view2.
           RNTupleView_call view i = (Inr r, view1)
         \<and> deref view1 r = Some (fPrincipalColumn (fField view) ! unat i)
         \<and> RNTupleView_call view1 j = (Inr r, view2)
         \<and> deref view2 r = Some (fPrincipalColumn (fField view) ! unat j)
         \<and> fField view2 = fField view"
  using assms by (simp add: RNTupleView_call_def Read_v_def)

theorem nonmappable_access_reuses_holder_witness:
  "\<not> fHasMap (fField example_view)
   \<and> unat (0 :: NTupleSize_t) < length (fPrincipalColumn (fField example_view))
   \<and> unat (2 :: NTupleSize_t) < length (fPrincipalColumn (fField example_view))
   \<and> RNTupleView_call example_view 0 = (Inr InValue, example_view\<lparr>fValue := 10\<rparr>)
   \<and> deref (example_view\<lparr>fValue := 10\<rparr>) InValue = Some 10
   \<and> RNTupleView_call (example_view\<lparr>fValue := 10\<rparr>) 2 = (Inr InValue, example_view\<lparr>fValue := 30\<rparr>)
   \<and> deref (example_view\<lparr>fValue := 30\<rparr>) InValue = Some 30"
proof -
  have a: "\<not> fHasMap (fField example_view)"
    by (simp add: example_view_def)
  have b: "unat (0 :: NTupleSize_t) < length (fPrincipalColumn (fField example_view))"
    by (simp add: example_view_def)
  have c: "unat (2 :: NTupleSize_t) < length (fPrincipalColumn (fField example_view))"
    by (simp add: example_view_def)
  show ?thesis
    using a b c nonmappable_access_reuses_holder [OF a b c]
    by (simp add: RNTupleView_call_def Read_v_def) (simp add: example_view_def)
qed

text \<open>
  C9. For every index at or beyond the number of elements of the field,
  \<^verbatim>\<open>operator()\<close> fails with \<open>OutOfRange\<close>, whether the field class has \<^verbatim>\<open>Map\<close> or not,
  and the view is as before.
\<close>

theorem access_out_of_range:
  assumes "length (fPrincipalColumn (fField view)) \<le> unat i"
  shows "RNTupleView_call view i = (Inl OutOfRange, view)"
  using assms by (simp add: RNTupleView_call_def Read_v_def Map_f_def)

theorem access_out_of_range_witness:
  "length (fPrincipalColumn (fField example_view)) \<le> unat (3 :: NTupleSize_t)
   \<and> RNTupleView_call example_view 3 = (Inl OutOfRange, example_view)
   \<and> RNTupleView_call (example_view\<lparr>fField := (fField example_view)\<lparr>fHasMap := True\<rparr>\<rparr>) 3
       = (Inl OutOfRange, example_view\<lparr>fField := (fField example_view)\<lparr>fHasMap := True\<rparr>\<rparr>)"
proof -
  have a: "length (fPrincipalColumn (fField example_view)) \<le> unat (3 :: NTupleSize_t)"
    by (simp add: example_view_def)
  have b: "length (fPrincipalColumn
             (fField (example_view\<lparr>fField := (fField example_view)\<lparr>fHasMap := True\<rparr>\<rparr>)))
           \<le> unat (3 :: NTupleSize_t)"
    by (simp add: example_view_def)
  show ?thesis
    using a access_out_of_range [OF a] access_out_of_range [OF b] by simp
qed

end
